theory Spec2Isabelle
  imports Complex_Main "HOL-Library.Word" "HOL-Library.List_Lexorder"
begin

section \<open>Strings\<close>

text \<open>
  A JavaScript string is a sequence of UTF-16 code units. Comparison of two strings, as
  \<^verbatim>\<open>Array.prototype.sort\<close> does it without a comparator, is lexicographic on the code
  units, a proper prefix being smaller: the order of lists over a linear order.
\<close>

type_synonym jstring = "16 word list"

definition js :: "string \<Rightarrow> jstring" where
  "js s = map of_char s"

text \<open>The property names and the literals of \<^verbatim>\<open>src/app/page.tsx\<close>.\<close>

definition k_error_message :: jstring where
  "k_error_message = js ''Error Message''"

definition k_note :: jstring where
  "k_note = js ''Note''"

definition k_time_series :: jstring where
  "k_time_series = js ''Time Series (Daily)''"

definition k_open :: jstring where
  "k_open = js ''1. open''"

definition k_high :: jstring where
  "k_high = js ''2. high''"

definition k_low :: jstring where
  "k_low = js ''3. low''"

definition k_close :: jstring where
  "k_close = js ''4. close''"

definition k_volume :: jstring where
  "k_volume = js ''5. volume''"

text \<open>
  The message of the error thrown for a response with an \<^verbatim>\<open>'Error Message'\<close>
  (``the symbol cannot be found''), ten code units.
\<close>

definition msg_not_found :: jstring where
  "msg_not_found =
     [0x9298, 0x67C4, 0x304C, 0x898B, 0x3064, 0x304B, 0x308A, 0x307E, 0x305B, 0x3093]"

text \<open>
  The message of the error thrown for a response with a \<^verbatim>\<open>'Note'\<close> (``the API limit has
  been reached, wait a while and try again''), 31 code units, the first three being \<open>API\<close>.
\<close>

definition msg_limit :: jstring where
  "msg_limit =
     [0x0041, 0x0050, 0x0049, 0x5236, 0x9650, 0x306B, 0x9054, 0x3057, 0x307E, 0x3057,
      0x305F, 0x3002, 0x3057, 0x3070, 0x3089, 0x304F, 0x5F85, 0x3063, 0x3066, 0x304B,
      0x3089, 0x518D, 0x8A66, 0x884C, 0x3057, 0x3066, 0x304F, 0x3060, 0x3055, 0x3044,
      0x3002]"

text \<open>
  The three pieces of the status texts: \<open>symbol\<close> followed by ``is being fetched...'',
  \<open>symbol\<close> followed by ``has been fetched'', and ``error: '' followed by a message.
\<close>

definition txt_fetching :: jstring where
  "txt_fetching =
     [0x0020, 0x306E, 0x30C7, 0x30FC, 0x30BF, 0x3092, 0x53D6, 0x5F97, 0x4E2D, 0x002E,
      0x002E, 0x002E]"

definition txt_fetched :: jstring where
  "txt_fetched =
     [0x0020, 0x306E, 0x30C7, 0x30FC, 0x30BF, 0x3092, 0x53D6, 0x5F97, 0x3057, 0x307E,
      0x3057, 0x305F]"

definition txt_error :: jstring where
  "txt_error = [0x30A8, 0x30E9, 0x30FC, 0x003A, 0x0020]"

text \<open>The decimal numeral of a natural number, as an array index is spelled as a key.\<close>

fun decimal :: "nat \<Rightarrow> jstring" where
  "decimal n = (if n < 10 then [of_nat (48 + n)] else decimal (n div 10) @ [of_nat (48 + n mod 10)])"

declare decimal.simps [simp del]

section \<open>Values and errors\<close>

text \<open>
  The documents of the quote provider are JSON objects whose members are strings and
  objects. The model has these, \<^verbatim>\<open>null\<close> and the booleans. JSON numbers and arrays are not
  part of it: what the program does with one as an argument of \<^verbatim>\<open>parseFloat\<close> or
  \<^verbatim>\<open>parseInt\<close> goes through the printing of Numbers, which is not modelled. An object is
  the list of its own properties after parsing, one pair for each name. The value
  \<^verbatim>\<open>undefined\<close>, which is no JSON value, is \<open>None\<close>.
\<close>

datatype json = JNull | JBool bool | JStr jstring | JObj "(jstring \<times> json) list"

type_synonym jsvalue = "json option"

text \<open>
  An exception is an error object with its class and its message. \<open>Error\<close> is what the
  program constructs with \<^verbatim>\<open>new Error(...)\<close>; \<open>TypeError\<close> and \<open>SyntaxError\<close> are raised by
  the platform.
\<close>

datatype js_error = Error jstring | TypeError jstring | SyntaxError jstring

fun message :: "js_error \<Rightarrow> jstring" where
  "message (Error m) = m"
| "message (TypeError m) = m"
| "message (SyntaxError m) = m"

text \<open>The conversion to a boolean that \<^verbatim>\<open>if (v)\<close> and \<^verbatim>\<open>!v\<close> apply.\<close>

fun truthy :: "jsvalue \<Rightarrow> bool" where
  "truthy None = False"
| "truthy (Some JNull) = False"
| "truthy (Some (JBool b)) = b"
| "truthy (Some (JStr s)) = (s \<noteq> [])"
| "truthy (Some (JObj kvs)) = True"

text \<open>
  The text of the \<open>TypeError\<close> for a property read on \<^verbatim>\<open>null\<close> or \<^verbatim>\<open>undefined\<close>, in the
  wording of V8; other engines word it differently.
\<close>

definition cannot_read :: "string \<Rightarrow> jstring \<Rightarrow> jstring" where
  "cannot_read what k =
     js ''Cannot read properties of '' @ js what @ js '' (reading '' @ [0x27] @ k @ [0x27] @ js '')''"

text \<open>
  The property read \<^verbatim>\<open>v[k]\<close>, for a name \<open>k\<close> that no prototype defines and that is not
  \<^verbatim>\<open>length\<close>: the program reads the eight names above, a name that \<^verbatim>\<open>Object.keys\<close>
  has returned, and \<^verbatim>\<open>undefined\<close>. A string has its code units at its indices, as strings
  of length one.
\<close>

definition string_index :: "jstring \<Rightarrow> jstring \<Rightarrow> jsvalue" where
  "string_index s k =
     (case filter (\<lambda>i. decimal i = k) [0..<length s] of
        [] \<Rightarrow> None
      | i # _ \<Rightarrow> Some (JStr [s ! i]))"

fun property :: "jsvalue \<Rightarrow> jstring \<Rightarrow> js_error + jsvalue" where
  "property None k = Inl (TypeError (cannot_read ''undefined'' k))"
| "property (Some JNull) k = Inl (TypeError (cannot_read ''null'' k))"
| "property (Some (JBool b)) k = Inr None"
| "property (Some (JStr s)) k = Inr (string_index s k)"
| "property (Some (JObj kvs)) k = Inr (map_of kvs k)"

text \<open>
  \<^verbatim>\<open>Object.keys\<close>: the names of the own enumerable properties. For an object the
  platform lists integer-like names first; the program sorts the result at once, so the
  model lists the names in the order of the pairs.
\<close>

fun Object_keys :: "jsvalue \<Rightarrow> js_error + jstring list" where
  "Object_keys None = Inl (TypeError (js ''Cannot convert undefined or null to object''))"
| "Object_keys (Some JNull) = Inl (TypeError (js ''Cannot convert undefined or null to object''))"
| "Object_keys (Some (JBool b)) = Inr []"
| "Object_keys (Some (JStr s)) = Inr (map decimal [0..<length s])"
| "Object_keys (Some (JObj kvs)) = Inr (map fst kvs)"

text \<open>
  The conversion to a string that \<^verbatim>\<open>parseFloat\<close> and \<^verbatim>\<open>parseInt\<close> apply to their
  argument, and that a computed property name undergoes. An object is converted by its
  \<^verbatim>\<open>toString\<close> method; an own property of that name, which in a JSON document is never a
  function, hides the inherited method and leaves no way to a primitive value.
\<close>

fun ToString :: "jsvalue \<Rightarrow> js_error + jstring" where
  "ToString None = Inr (js ''undefined'')"
| "ToString (Some JNull) = Inr (js ''null'')"
| "ToString (Some (JBool b)) = Inr (if b then js ''true'' else js ''false'')"
| "ToString (Some (JStr s)) = Inr s"
| "ToString (Some (JObj kvs)) =
     (if js ''toString'' \<in> set (map fst kvs)
      then Inl (TypeError (js ''Cannot convert object to primitive value''))
      else Inr (js ''[object Object]''))"

section \<open>Numbers\<close>

text \<open>
  A Number is an IEEE 754 double: a finite value, which is a rational number, one of the
  two infinities, the negative zero, or NaN. \<open>Fin 0\<close> is the positive zero.
\<close>

datatype number = NaN | PosInfinity | NegInfinity | NegZero | Fin rat

fun negate :: "number \<Rightarrow> number" where
  "negate NaN = NaN"
| "negate PosInfinity = NegInfinity"
| "negate NegInfinity = PosInfinity"
| "negate NegZero = Fin 0"
| "negate (Fin r) = (if r = 0 then NegZero else Fin (- r))"

text \<open>The number of binary digits of a positive integer.\<close>

function bitlen :: "int \<Rightarrow> int" where
  "bitlen n = (if n \<le> 0 then 0 else 1 + bitlen (n div 2))"
  by pat_completeness auto
termination
  by (relation "measure nat") auto

declare bitlen.simps [simp del]

definition pow2 :: "int \<Rightarrow> rat" where
  "pow2 k = (if 0 \<le> k then 2 ^ nat k else 1 / 2 ^ nat (- k))"

definition pow10 :: "int \<Rightarrow> rat" where
  "pow10 k = (if 0 \<le> k then 10 ^ nat k else 1 / 10 ^ nat (- k))"

text \<open>For \<open>0 < x\<close>, the exponent \<open>e\<close> with \<open>2 ^ e \<le> x < 2 ^ (e + 1)\<close>.\<close>

definition floor_log2 :: "rat \<Rightarrow> int" where
  "floor_log2 x =
     (case quotient_of x of (a, b) \<Rightarrow>
        let d = bitlen a - bitlen b
        in if pow2 d \<le> x then d else d - 1)"

definition round_half_even :: "rat \<Rightarrow> int" where
  "round_half_even x =
     (let f = \<lfloor>x\<rfloor>; r = x - of_int f
      in if r < 1 / 2 then f else if 1 / 2 < r then f + 1 else if even f then f else f + 1)"

text \<open>
  The Number value for a non-negative real: the nearest double, ties to the even
  significand, with 53 bits of significand, exponents down to the subnormal \<open>-1074\<close>, and
  infinity from \<open>2 ^ 1024\<close> on.
\<close>

definition to_double :: "rat \<Rightarrow> number" where
  "to_double x =
     (if x \<le> 0 then Fin 0
      else let q = max (floor_log2 x - 52) (- 1074);
               r = of_int (round_half_even (x / pow2 q)) * pow2 q
           in if pow2 1024 \<le> r then PosInfinity else Fin r)"

definition is_space :: "16 word \<Rightarrow> bool" where
  "is_space c =
     (c \<in> {0x09, 0x0A, 0x0B, 0x0C, 0x0D, 0x20, 0xA0, 0x1680, 0x2028, 0x2029, 0x202F,
            0x205F, 0x3000, 0xFEFF}
      \<or> (0x2000 \<le> c \<and> c \<le> 0x200A))"

definition is_digit :: "16 word \<Rightarrow> bool" where
  "is_digit c = (0x30 \<le> c \<and> c \<le> 0x39)"

definition digit_val :: "16 word \<Rightarrow> int" where
  "digit_val c =
     (if is_digit c then uint c - 48
      else if 0x61 \<le> c \<and> c \<le> 0x66 then uint c - 87
      else uint c - 55)"

definition is_hex_digit :: "16 word \<Rightarrow> bool" where
  "is_hex_digit c = (is_digit c \<or> (0x61 \<le> c \<and> c \<le> 0x66) \<or> (0x41 \<le> c \<and> c \<le> 0x46))"

definition digits_val :: "int \<Rightarrow> jstring \<Rightarrow> int" where
  "digits_val radix ds = foldl (\<lambda>n c. radix * n + digit_val c) 0 ds"

definition take_sign :: "jstring \<Rightarrow> bool \<times> jstring" where
  "take_sign s =
     (case s of
        [] \<Rightarrow> (False, s)
      | c # r \<Rightarrow> if c = 0x2D then (True, r) else if c = 0x2B then (False, r) else (False, s))"

text \<open>The value of the exponent part at the front of a string, \<open>0\<close> where there is none.\<close>

definition exponent_part :: "jstring \<Rightarrow> int" where
  "exponent_part s =
     (case s of
        [] \<Rightarrow> 0
      | c # r \<Rightarrow>
          if c = 0x65 \<or> c = 0x45
          then (case take_sign r of (neg, t) \<Rightarrow>
                  let ds = takeWhile is_digit t
                  in if neg then - digits_val 10 ds else digits_val 10 ds)
          else 0)"

text \<open>
  The longest prefix that is an unsigned decimal literal (\<^verbatim>\<open>Infinity\<close>, or digits with an
  optional fraction and an optional exponent, at least one digit before the exponent),
  and its Number value; NaN where no prefix is a literal. The value is that of the exact
  decimal; for more than twenty significant digits the language lets an engine round
  from the first twenty.
\<close>

definition unsigned_decimal :: "jstring \<Rightarrow> number" where
  "unsigned_decimal s =
     (if take 8 s = js ''Infinity'' then PosInfinity
      else let ip = takeWhile is_digit s; r1 = dropWhile is_digit s
           in case (case r1 of
                      [] \<Rightarrow> ([], r1)
                    | c # t \<Rightarrow> if c = 0x2E then (takeWhile is_digit t, dropWhile is_digit t)
                               else ([], r1)) of
                (fp, r2) \<Rightarrow>
                  if ip = [] \<and> fp = [] then NaN
                  else to_double (of_int (digits_val 10 (ip @ fp))
                                  * pow10 (exponent_part r2 - int (length fp))))"

definition parseFloat_string :: "jstring \<Rightarrow> number" where
  "parseFloat_string s =
     (case take_sign (dropWhile is_space s) of (neg, t) \<Rightarrow>
        let n = unsigned_decimal t in if neg then negate n else n)"

text \<open>\<^verbatim>\<open>parseInt\<close> with no radix: base 16 after \<^verbatim>\<open>0x\<close>, base 10 otherwise.\<close>

definition parseInt_string :: "jstring \<Rightarrow> number" where
  "parseInt_string s =
     (case take_sign (dropWhile is_space s) of (neg, t) \<Rightarrow>
        case (if take 2 t = js ''0x'' \<or> take 2 t = js ''0X''
              then (16, takeWhile is_hex_digit (drop 2 t))
              else (10, takeWhile is_digit t)) of
          (radix, z) \<Rightarrow>
            if z = [] then NaN
            else let n = to_double (of_int (digits_val radix z))
                 in if neg then negate n else n)"

definition parseFloat :: "jsvalue \<Rightarrow> js_error + number" where
  "parseFloat v = (case ToString v of Inl e \<Rightarrow> Inl e | Inr s \<Rightarrow> Inr (parseFloat_string s))"

definition parseInt :: "jsvalue \<Rightarrow> js_error + number" where
  "parseInt v = (case ToString v of Inl e \<Rightarrow> Inl e | Inr s \<Rightarrow> Inr (parseInt_string s))"

section \<open>The market-data client\<close>

text \<open>
  A synchronous computation returns a value or throws: the error is \<open>Inl\<close>, and the
  statements after a throwing one are not run.
\<close>

definition and_then :: "js_error + 'a \<Rightarrow> ('a \<Rightarrow> js_error + 'b) \<Rightarrow> js_error + 'b" where
  "and_then r f = (case r of Inl e \<Rightarrow> Inl e | Inr x \<Rightarrow> f x)"

text \<open>The object that \<^verbatim>\<open>parseStockData\<close> returns.\<close>

record quote =
  date :: "jstring option"
  open_price :: number
  high :: number
  low :: number
  close_price :: number
  volume :: number

text \<open>\<^verbatim>\<open>dates[0]\<close>, which is \<^verbatim>\<open>undefined\<close> for the empty array.\<close>

definition first :: "'a list \<Rightarrow> 'a option" where
  "first xs = (case xs of [] \<Rightarrow> None | x # _ \<Rightarrow> Some x)"

text \<open>The name under which \<^verbatim>\<open>timeSeries[latestDate]\<close> reads.\<close>

definition property_key :: "jstring option \<Rightarrow> jstring" where
  "property_key k = (case k of None \<Rightarrow> js ''undefined'' | Some s \<Rightarrow> s)"

text \<open>
  \<^verbatim>\<open>AlphaVantageAPI.parseStockData\<close>. The result \<open>Inr None\<close> is the returned \<^verbatim>\<open>null\<close>. The
  fields \<^verbatim>\<open>open\<close> and \<^verbatim>\<open>close\<close> of the result are \<open>open_price\<close> and \<open>close_price\<close> here.
\<close>

definition parseStockData :: "json \<Rightarrow> js_error + quote option" where
  "parseStockData apiData =
     and_then (property (Some apiData) k_time_series) (\<lambda>timeSeries.
       if \<not> truthy timeSeries then Inr None
       else
         and_then (Object_keys timeSeries) (\<lambda>keys.
           let dates = rev (sort keys);
               latestDate = first dates
           in and_then (property timeSeries (property_key latestDate)) (\<lambda>latestData.
              and_then (and_then (property latestData k_open) parseFloat) (\<lambda>v_open.
              and_then (and_then (property latestData k_high) parseFloat) (\<lambda>v_high.
              and_then (and_then (property latestData k_low) parseFloat) (\<lambda>v_low.
              and_then (and_then (property latestData k_close) parseFloat) (\<lambda>v_close.
              and_then (and_then (property latestData k_volume) parseInt) (\<lambda>v_volume.
                Inr (Some \<lparr>date = latestDate, open_price = v_open, high = v_high, low = v_low,
                           close_price = v_close, volume = v_volume\<rparr>)))))))))"

section \<open>The page and its environment\<close>

text \<open>
  The three cells of React state that the fetching functions write: the Quote Cache
  \<^verbatim>\<open>stockPrices\<close>, the flag \<^verbatim>\<open>isLoading\<close> and the text \<^verbatim>\<open>apiStatus\<close>.
\<close>

record page_state =
  stockPrices :: "jstring \<rightharpoonup> quote"
  isLoading :: bool
  apiStatus :: jstring

text \<open>
  What happens outside the page is recorded with the time in milliseconds: a request
  leaving for the provider, its outcome arriving, a line on the console.
\<close>

datatype event = Request jstring nat | Settled jstring nat | ConsoleError js_error

record world =
  page :: page_state
  now :: nat
  trace :: "event list"

text \<open>
  The network answers a request with a body or fails it. \<^verbatim>\<open>fetch\<close> rejects with a
  \<open>TypeError\<close> when the request fails; \<^verbatim>\<open>response.json()\<close> rejects with a \<open>SyntaxError\<close> when
  the body is not JSON. The environment gives, for a symbol requested at a time, the
  outcome and the time it takes, reading the body included; and for a timer started at a
  time, by how much it fires late.
\<close>

datatype body = Malformed jstring | Document json

datatype fetch_result = NetworkError jstring | Response body

record env =
  respond :: "jstring \<Rightarrow> nat \<Rightarrow> fetch_result \<times> nat"
  timer_lag :: "nat \<Rightarrow> nat"

text \<open>
  An asynchronous function is a computation on the world that ends with a value or with
  an exception; \<^verbatim>\<open>await\<close> is sequencing.
\<close>

type_synonym 'a prog = "world \<Rightarrow> (js_error + 'a) \<times> world"

definition pure :: "'a \<Rightarrow> 'a prog" where
  "pure x = (\<lambda>w. (Inr x, w))"

definition raise :: "js_error \<Rightarrow> 'a prog" where
  "raise e = (\<lambda>w. (Inl e, w))"

definition bind :: "'a prog \<Rightarrow> ('a \<Rightarrow> 'b prog) \<Rightarrow> 'b prog" where
  "bind m f = (\<lambda>w. case m w of (Inl e, w') \<Rightarrow> (Inl e, w') | (Inr x, w') \<Rightarrow> f x w')"

definition next_do :: "unit prog \<Rightarrow> 'a prog \<Rightarrow> 'a prog" where
  "next_do m n = bind m (\<lambda>_. n)"

definition try_catch :: "'a prog \<Rightarrow> (js_error \<Rightarrow> 'a prog) \<Rightarrow> 'a prog" where
  "try_catch m handler =
     (\<lambda>w. case m w of (Inl e, w') \<Rightarrow> handler e w' | (Inr x, w') \<Rightarrow> (Inr x, w'))"

text \<open>The \<^verbatim>\<open>finally\<close> block runs on every way out; an exception of its own replaces the outcome.\<close>

definition try_finally :: "'a prog \<Rightarrow> unit prog \<Rightarrow> 'a prog" where
  "try_finally m finalizer =
     (\<lambda>w. case m w of (r, w') \<Rightarrow>
        (case finalizer w' of (Inl e, w'') \<Rightarrow> (Inl e, w'') | (Inr _, w'') \<Rightarrow> (r, w'')))"

definition setStockPrices ::
  "((jstring \<rightharpoonup> quote) \<Rightarrow> (jstring \<rightharpoonup> quote)) \<Rightarrow> unit prog" where
  "setStockPrices f = (\<lambda>w. (Inr (), w\<lparr>page := (page w)\<lparr>stockPrices := f (stockPrices (page w))\<rparr>\<rparr>))"

definition setIsLoading :: "bool \<Rightarrow> unit prog" where
  "setIsLoading b = (\<lambda>w. (Inr (), w\<lparr>page := (page w)\<lparr>isLoading := b\<rparr>\<rparr>))"

definition setApiStatus :: "jstring \<Rightarrow> unit prog" where
  "setApiStatus s = (\<lambda>w. (Inr (), w\<lparr>page := (page w)\<lparr>apiStatus := s\<rparr>\<rparr>))"

definition console_error :: "js_error \<Rightarrow> unit prog" where
  "console_error e = (\<lambda>w. (Inr (), w\<lparr>trace := trace w @ [ConsoleError e]\<rparr>))"

text \<open>\<^verbatim>\<open>await fetch(url)\<close>, the URL carrying the symbol.\<close>

definition fetch :: "env \<Rightarrow> jstring \<Rightarrow> body prog" where
  "fetch env symbol =
     (\<lambda>w. case respond env symbol (now w) of (r, d) \<Rightarrow>
        let sent = w\<lparr>trace := trace w @ [Request symbol (now w)]\<rparr>;
            w' = sent\<lparr>now := now w + d\<rparr>\<lparr>trace := trace sent @ [Settled symbol (now w + d)]\<rparr>
        in (case r of
              NetworkError m \<Rightarrow> (Inl (TypeError m), w')
            | Response b \<Rightarrow> (Inr b, w')))"

text \<open>\<^verbatim>\<open>await response.json()\<close>.\<close>

definition response_json :: "body \<Rightarrow> json prog" where
  "response_json b = (case b of Malformed m \<Rightarrow> raise (SyntaxError m) | Document d \<Rightarrow> pure d)"

text \<open>\<^verbatim>\<open>await new Promise(resolve => setTimeout(resolve, ms))\<close>.\<close>

definition delay :: "env \<Rightarrow> nat \<Rightarrow> unit prog" where
  "delay env ms = (\<lambda>w. (Inr (), w\<lparr>now := now w + ms + timer_lag env (now w)\<rparr>))"

definition lift :: "js_error + 'a \<Rightarrow> 'a prog" where
  "lift r = (\<lambda>w. (r, w))"

text \<open>\<^verbatim>\<open>AlphaVantageAPI.getDailyData\<close>.\<close>

definition getDailyData :: "env \<Rightarrow> jstring \<Rightarrow> json prog" where
  "getDailyData env symbol =
     try_catch
       (bind (fetch env symbol) (\<lambda>response.
        bind (response_json response) (\<lambda>data.
        bind (lift (property (Some data) k_error_message)) (\<lambda>error_message.
          if truthy error_message then raise (Error msg_not_found)
          else
            bind (lift (property (Some data) k_note)) (\<lambda>note.
              if truthy note then raise (Error msg_limit)
              else pure data)))))
       (\<lambda>error. next_do (console_error error) (raise error))"

text \<open>\<^verbatim>\<open>fetchStockPrice\<close> of \<^verbatim>\<open>StockPortfolioApp\<close>.\<close>

definition fetchStockPrice :: "env \<Rightarrow> jstring \<Rightarrow> unit prog" where
  "fetchStockPrice env symbol =
     next_do (setIsLoading True)
    (next_do (setApiStatus (symbol @ txt_fetching))
    (try_finally
       (try_catch
          (bind (getDailyData env symbol) (\<lambda>data.
           bind (lift (parseStockData data)) (\<lambda>parsedData.
             case parsedData of
               None \<Rightarrow> pure ()
             | Some q \<Rightarrow>
                 next_do (setStockPrices (\<lambda>prev. prev(symbol \<mapsto> q)))
                         (setApiStatus (symbol @ txt_fetched)))))
          (\<lambda>error. setApiStatus (txt_error @ message error)))
       (setIsLoading False)))"

text \<open>\<^verbatim>\<open>updateAllPrices\<close>: the \<^verbatim>\<open>for ... of\<close> loop over the four symbols.\<close>

definition symbols :: "jstring list" where
  "symbols = [js ''AAPL'', js ''MSFT'', js ''7203.T'', js ''9432.T'']"

fun for_of :: "'a list \<Rightarrow> ('a \<Rightarrow> unit prog) \<Rightarrow> unit prog" where
  "for_of [] body = pure ()"
| "for_of (x # xs) body = next_do (body x) (for_of xs body)"

definition updateAllPrices :: "env \<Rightarrow> unit prog" where
  "updateAllPrices env =
     for_of symbols (\<lambda>symbol.
       next_do (fetchStockPrice env symbol) (delay env 1000))"

section \<open>Notions for the statements\<close>

text \<open>
  The specification calls the two errors that \<^verbatim>\<open>getDailyData\<close> constructs
  \<open>NotFoundError\<close> and \<open>RateLimitedError\<close>; in the program they are objects of the class
  \<^verbatim>\<open>Error\<close> that differ in their message.
\<close>

definition NotFoundError :: js_error where
  "NotFoundError = Error msg_not_found"

definition RateLimitedError :: js_error where
  "RateLimitedError = Error msg_limit"

text \<open>The events of the network in a trace, the lines of the console left out.\<close>

fun is_network :: "event \<Rightarrow> bool" where
  "is_network (Request s t) = True"
| "is_network (Settled s t) = True"
| "is_network (ConsoleError e) = False"

definition network :: "event list \<Rightarrow> event list" where
  "network es = filter is_network es"

text \<open>An entry of the provider's shape: an object all of whose members are strings.\<close>

fun is_string :: "json \<Rightarrow> bool" where
  "is_string (JStr s) = True"
| "is_string v = False"

fun string_fields :: "json \<Rightarrow> bool" where
  "string_fields (JObj fs) = list_all is_string (map snd fs)"
| "string_fields v = False"

text \<open>The entry of the specification's example, and a series of two days that carry it.\<close>

definition sample_entry :: json where
  "sample_entry =
     JObj [(k_open, JStr (js ''150.00'')), (k_high, JStr (js ''152.00'')),
           (k_low, JStr (js ''149.50'')), (k_close, JStr (js ''151.25'')),
           (k_volume, JStr (js ''1000000''))]"

definition two_days :: "(jstring \<times> json) list" where
  "two_days = [(js ''2024-01-02'', sample_entry), (js ''2024-01-03'', sample_entry)]"

text \<open>
  The page as it is mounted, at time \<open>0\<close>; and the environment that answers every request
  with one outcome after one latency, its timers firing on time.
\<close>

definition idle :: world where
  "idle = \<lparr>page = \<lparr>stockPrices = Map.empty, isLoading = False, apiStatus = []\<rparr>,
            now = 0, trace = []\<rparr>"

definition steady :: "fetch_result \<Rightarrow> nat \<Rightarrow> env" where
  "steady r d = \<lparr>respond = (\<lambda>symbol t. (r, d)), timer_lag = (\<lambda>t. 0)\<rparr>"

section \<open>What a call of the client returns and changes\<close>

lemmas prog_defs = pure_def raise_def bind_def next_do_def try_catch_def try_finally_def
  lift_def setStockPrices_def setIsLoading_def setApiStatus_def console_error_def fetch_def
  response_json_def delay_def

lemma messages_differ: "msg_limit \<noteq> msg_not_found"
  by (simp add: msg_limit_def msg_not_found_def)

lemma keys_differ:
  "k_note \<noteq> k_error_message" "k_time_series \<noteq> k_error_message" "k_time_series \<noteq> k_note"
  "k_error_message \<noteq> k_note" "k_error_message \<noteq> k_time_series" "k_note \<noteq> k_time_series"
  by (simp_all add: k_note_def k_error_message_def k_time_series_def js_def)

lemma getDailyData_value:
  "fst (getDailyData env symbol w) =
     (case fst (respond env symbol (now w)) of
        NetworkError m \<Rightarrow> Inl (TypeError m)
      | Response (Malformed m) \<Rightarrow> Inl (SyntaxError m)
      | Response (Document data) \<Rightarrow>
          and_then (property (Some data) k_error_message) (\<lambda>error_message.
            if truthy error_message then Inl (Error msg_not_found)
            else and_then (property (Some data) k_note) (\<lambda>note.
              if truthy note then Inl (Error msg_limit) else Inr data)))"
  by (cases "respond env symbol (now w)")
     (simp add: getDailyData_def prog_defs and_then_def Let_def
        split: fetch_result.splits body.splits sum.splits)

lemma getDailyData_page: "page (snd (getDailyData env symbol w)) = page w"
  by (cases "respond env symbol (now w)")
     (simp add: getDailyData_def prog_defs and_then_def Let_def
        split: fetch_result.splits body.splits sum.splits)

lemma getDailyData_now:
  "now (snd (getDailyData env symbol w)) = now w + snd (respond env symbol (now w))"
  by (cases "respond env symbol (now w)")
     (simp add: getDailyData_def prog_defs and_then_def Let_def
        split: fetch_result.splits body.splits sum.splits)

lemma getDailyData_network:
  "network (trace (snd (getDailyData env symbol w))) =
     network (trace w)
       @ [Request symbol (now w), Settled symbol (now w + snd (respond env symbol (now w)))]"
  by (cases "respond env symbol (now w)")
     (simp add: getDailyData_def prog_defs and_then_def Let_def network_def
        split: fetch_result.splits body.splits sum.splits)

lemma getDailyData_trace_ok:
  "fst (getDailyData env symbol w) = Inr data \<Longrightarrow>
   trace (snd (getDailyData env symbol w)) =
     trace w @ [Request symbol (now w), Settled symbol (now w + snd (respond env symbol (now w)))]"
  by (cases "respond env symbol (now w)")
     (auto simp add: getDailyData_def prog_defs and_then_def Let_def
        split: fetch_result.splits body.splits sum.splits if_splits)

lemma getDailyData_page_update:
  "getDailyData env symbol (w\<lparr>page := p\<rparr>) =
     (fst (getDailyData env symbol w), (snd (getDailyData env symbol w))\<lparr>page := p\<rparr>)"
  by (cases "respond env symbol (now w)")
     (simp add: getDailyData_def prog_defs and_then_def Let_def
        split: fetch_result.splits body.splits sum.splits)

text \<open>
  \<^verbatim>\<open>fetchStockPrice\<close> in one equation: it returns, and its world is that of
  \<^verbatim>\<open>getDailyData\<close> with the page rewritten according to what the \<^verbatim>\<open>try\<close> block reached.
\<close>

lemma fetchStockPrice_eq:
  "fetchStockPrice env symbol w =
     (Inr (),
      (snd (getDailyData env symbol w))
        \<lparr>page := (page w)
           \<lparr>stockPrices :=
              (case and_then (fst (getDailyData env symbol w)) parseStockData of
                 Inr (Some q) \<Rightarrow> (stockPrices (page w))(symbol \<mapsto> q)
               | _ \<Rightarrow> stockPrices (page w)),
            isLoading := False,
            apiStatus :=
              (case and_then (fst (getDailyData env symbol w)) parseStockData of
                 Inl e \<Rightarrow> txt_error @ message e
               | Inr None \<Rightarrow> symbol @ txt_fetching
               | Inr (Some q) \<Rightarrow> symbol @ txt_fetched)\<rparr>\<rparr>)"
proof -
  obtain r w1 where g: "getDailyData env symbol w = (r, w1)"
    by (cases "getDailyData env symbol w")
  have p: "page w1 = page w"
    using getDailyData_page [of env symbol w] g by simp
  show ?thesis
    by (cases r; cases "parseStockData (projr r)"; cases "projr (parseStockData (projr r))")
       (simp_all add: fetchStockPrice_def next_do_def bind_def try_finally_def try_catch_def
          setIsLoading_def setApiStatus_def setStockPrices_def lift_def pure_def
          getDailyData_page_update g p and_then_def
          split: sum.splits option.splits)
qed

lemma fetchStockPrice_value: "fst (fetchStockPrice env symbol w) = Inr ()"
  by (simp add: fetchStockPrice_eq)

lemma fetchStockPrice_stockPrices:
  "stockPrices (page (snd (fetchStockPrice env symbol w))) =
     (case and_then (fst (getDailyData env symbol w)) parseStockData of
        Inr (Some q) \<Rightarrow> (stockPrices (page w))(symbol \<mapsto> q)
      | _ \<Rightarrow> stockPrices (page w))"
  by (simp add: fetchStockPrice_eq)

lemma fetchStockPrice_apiStatus:
  "apiStatus (page (snd (fetchStockPrice env symbol w))) =
     (case and_then (fst (getDailyData env symbol w)) parseStockData of
        Inl e \<Rightarrow> txt_error @ message e
      | Inr None \<Rightarrow> symbol @ txt_fetching
      | Inr (Some q) \<Rightarrow> symbol @ txt_fetched)"
  by (simp add: fetchStockPrice_eq)

lemma fetchStockPrice_isLoading:
  "isLoading (page (snd (fetchStockPrice env symbol w))) = False"
  by (simp add: fetchStockPrice_eq)

lemma fetchStockPrice_now:
  "now (snd (fetchStockPrice env symbol w)) = now w + snd (respond env symbol (now w))"
  by (simp add: fetchStockPrice_eq getDailyData_now)

lemma fetchStockPrice_trace:
  "trace (snd (fetchStockPrice env symbol w)) = trace (snd (getDailyData env symbol w))"
  by (simp add: fetchStockPrice_eq)

section \<open>Provider-reported errors\<close>

text \<open>
  C1, as the program has it. When the response is an object whose \<^verbatim>\<open>'Error Message'\<close> is
  truthy (present, and not \<^verbatim>\<open>null\<close>, \<^verbatim>\<open>false\<close> or the empty string), \<^verbatim>\<open>getDailyData\<close>
  fails with \<open>NotFoundError\<close>; \<^verbatim>\<open>fetchStockPrice\<close> then returns normally, leaves the
  Quote Cache as it was and shows the error's message as the status.
\<close>

theorem error_message_fails_not_found:
  assumes "fst (respond env symbol (now w)) = Response (Document (JObj kvs))"
    and "truthy (map_of kvs k_error_message)"
  shows "fst (getDailyData env symbol w) = Inl NotFoundError
       \<and> fst (fetchStockPrice env symbol w) = Inr ()
       \<and> stockPrices (page (snd (fetchStockPrice env symbol w))) = stockPrices (page w)
       \<and> apiStatus (page (snd (fetchStockPrice env symbol w))) = txt_error @ msg_not_found"
proof -
  have g: "fst (getDailyData env symbol w) = Inl (Error msg_not_found)"
    using assms by (simp add: getDailyData_value and_then_def)
  then show ?thesis
    by (simp add: NotFoundError_def fetchStockPrice_value fetchStockPrice_stockPrices
          fetchStockPrice_apiStatus and_then_def)
qed

theorem error_message_fails_not_found_witness:
  "fst (getDailyData
          (steady (Response (Document (JObj [(k_error_message, JStr (js ''Invalid API call.''))]))) 120)
          (js ''ZZZZ'') idle) = Inl NotFoundError
   \<and> stockPrices (page (snd (fetchStockPrice
          (steady (Response (Document (JObj [(k_error_message, JStr (js ''Invalid API call.''))]))) 120)
          (js ''ZZZZ'') idle))) (js ''ZZZZ'') = None"
proof -
  have r: "fst (respond
       (steady (Response (Document (JObj [(k_error_message, JStr (js ''Invalid API call.''))]))) 120)
       (js ''ZZZZ'') (now idle))
     = Response (Document (JObj [(k_error_message, JStr (js ''Invalid API call.''))]))"
    by (simp add: steady_def)
  have t: "truthy (map_of [(k_error_message, JStr (js ''Invalid API call.''))] k_error_message)"
    by (simp add: js_def)
  show ?thesis
    using error_message_fails_not_found [OF r t] by (simp add: idle_def)
qed

text \<open>
  C1 as it is stated fails: the response \<^verbatim>\<open>{"Error Message": ""}\<close> contains the field, and
  \<^verbatim>\<open>getDailyData\<close> returns it instead of failing, the empty string being falsy.
\<close>

theorem empty_error_message_counterexample:
  "map_of [(k_error_message, JStr [])] k_error_message = Some (JStr [])
   \<and> fst (getDailyData (steady (Response (Document (JObj [(k_error_message, JStr [])]))) 120)
           (js ''ZZZZ'') idle) = Inr (JObj [(k_error_message, JStr [])])
   \<and> fst (getDailyData (steady (Response (Document (JObj [(k_error_message, JStr [])]))) 120)
           (js ''ZZZZ'') idle) \<noteq> Inl NotFoundError"
  by (simp add: getDailyData_value steady_def and_then_def keys_differ)

text \<open>
  C2, as the program has it. When the response is an object whose \<^verbatim>\<open>'Note'\<close> is truthy and
  whose \<^verbatim>\<open>'Error Message'\<close> is not, \<^verbatim>\<open>getDailyData\<close> fails with \<open>RateLimitedError\<close>, which
  is not \<open>NotFoundError\<close>.
\<close>

theorem note_fails_rate_limited:
  assumes "fst (respond env symbol (now w)) = Response (Document (JObj kvs))"
    and "\<not> truthy (map_of kvs k_error_message)"
    and "truthy (map_of kvs k_note)"
  shows "fst (getDailyData env symbol w) = Inl RateLimitedError
       \<and> RateLimitedError \<noteq> NotFoundError"
  using assms
  by (simp add: getDailyData_value and_then_def RateLimitedError_def NotFoundError_def
        messages_differ)

theorem note_fails_rate_limited_witness:
  "fst (getDailyData
          (steady (Response (Document (JObj [(k_note, JStr (js ''Thank you for using Alpha Vantage!''))]))) 120)
          (js ''AAPL'') idle) = Inl RateLimitedError"
proof -
  have r: "fst (respond
       (steady (Response (Document (JObj [(k_note, JStr (js ''Thank you for using Alpha Vantage!''))]))) 120)
       (js ''AAPL'') (now idle))
     = Response (Document (JObj [(k_note, JStr (js ''Thank you for using Alpha Vantage!''))]))"
    by (simp add: steady_def)
  have e: "\<not> truthy (map_of [(k_note, JStr (js ''Thank you for using Alpha Vantage!''))] k_error_message)"
    by (simp add: keys_differ)
  have t: "truthy (map_of [(k_note, JStr (js ''Thank you for using Alpha Vantage!''))] k_note)"
    by (simp add: js_def)
  show ?thesis
    using note_fails_rate_limited [OF r e t] by simp
qed

text \<open>
  C2 as it is stated fails twice: a response with a truthy \<^verbatim>\<open>'Error Message'\<close> beside its
  \<^verbatim>\<open>'Note'\<close> fails with \<open>NotFoundError\<close>, the first check winning, and the response
  \<^verbatim>\<open>{"Note": ""}\<close> is returned without a failure.
\<close>

theorem note_counterexample:
  "fst (getDailyData
          (steady (Response (Document (JObj [(k_error_message, JStr (js ''x'')), (k_note, JStr (js ''y''))]))) 120)
          (js ''AAPL'') idle) = Inl NotFoundError
   \<and> NotFoundError \<noteq> RateLimitedError
   \<and> fst (getDailyData (steady (Response (Document (JObj [(k_note, JStr [])]))) 120)
           (js ''AAPL'') idle) = Inr (JObj [(k_note, JStr [])])"
  using messages_differ
  by (auto simp add: getDailyData_value steady_def and_then_def keys_differ js_def
        NotFoundError_def RateLimitedError_def)

section \<open>The latest day of the series\<close>

lemma sorted_le_last:
  fixes zs :: "('a :: linorder) list"
  assumes "sorted zs" and "y \<in> set zs"
  shows "y \<le> last zs"
proof -
  from assms(2) obtain i where i: "i < length zs" "zs ! i = y"
    by (auto simp: in_set_conv_nth)
  then have "zs \<noteq> []" by auto
  then have l: "last zs = zs ! (length zs - 1)" by (rule last_conv_nth)
  have "zs ! i \<le> zs ! (length zs - 1)"
    using assms(1) i(1) by (intro sorted_nth_mono) auto
  then show ?thesis using i(2) l by simp
qed

text \<open>Sorting ascending and reversing puts the greatest element first.\<close>

lemma first_rev_sort:
  fixes xs :: "('a :: linorder) list"
  assumes "xs \<noteq> []"
  shows "first (rev (sort xs)) = Some (Max (set xs))"
proof -
  have ne: "sort xs \<noteq> []" using assms by (metis length_sort length_0_conv)
  have h: "hd (rev (sort xs)) = last (sort xs)" using ne by (simp add: hd_rev)
  have "last (sort xs) \<in> set xs" using ne last_in_set [of "sort xs"] by simp
  moreover have "\<And>y. y \<in> set xs \<Longrightarrow> y \<le> last (sort xs)"
    by (rule sorted_le_last) simp_all
  ultimately have "Max (set xs) = last (sort xs)"
    by (intro Max_eqI) simp_all
  moreover obtain z zs where "rev (sort xs) = z # zs"
    using ne by (cases "rev (sort xs)") simp_all
  ultimately show ?thesis using h by (simp add: first_def)
qed

lemma ToString_string_field:
  assumes "list_all is_string (map snd fs)"
  shows "\<exists>s. ToString (map_of fs k) = Inr s"
proof (cases "map_of fs k")
  case None
  then show ?thesis by simp
next
  case (Some v)
  then have "v \<in> snd ` set fs" by (metis map_of_SomeD image_eqI snd_conv)
  with assms have "is_string v" by (auto simp: list_all_iff)
  then show ?thesis using Some by (cases v) simp_all
qed

lemma parseFloat_string_field:
  "list_all is_string (map snd fs) \<Longrightarrow> \<exists>n. parseFloat (map_of fs k) = Inr n"
  using ToString_string_field [of fs k] by (auto simp: parseFloat_def)

lemma parseInt_string_field:
  "list_all is_string (map snd fs) \<Longrightarrow> \<exists>n. parseInt (map_of fs k) = Inr n"
  using ToString_string_field [of fs k] by (auto simp: parseInt_def)

text \<open>\<^verbatim>\<open>parseStockData\<close> on a response whose series is an object.\<close>

lemma parseStockData_object:
  assumes "map_of kvs k_time_series = Some (JObj series)"
  shows "parseStockData (JObj kvs) =
     and_then (property (Some (JObj series)) (property_key (first (rev (sort (map fst series))))))
       (\<lambda>latestData.
          and_then (and_then (property latestData k_open) parseFloat) (\<lambda>v_open.
          and_then (and_then (property latestData k_high) parseFloat) (\<lambda>v_high.
          and_then (and_then (property latestData k_low) parseFloat) (\<lambda>v_low.
          and_then (and_then (property latestData k_close) parseFloat) (\<lambda>v_close.
          and_then (and_then (property latestData k_volume) parseInt) (\<lambda>v_volume.
            Inr (Some \<lparr>date = first (rev (sort (map fst series))), open_price = v_open,
                       high = v_high, low = v_low, close_price = v_close,
                       volume = v_volume\<rparr>)))))))"
  using assms by (simp add: parseStockData_def and_then_def Let_def)

lemma returned_date_is_max:
  assumes "map_of kvs k_time_series = Some (JObj series)" and "series \<noteq> []"
    and "parseStockData (JObj kvs) = Inr (Some q)"
  shows "date q = Some (Max (set (map fst series)))"
proof -
  have f: "first (rev (sort (map fst series))) = Some (Max (set (map fst series)))"
    using assms(2) by (intro first_rev_sort) simp
  show ?thesis
    using assms(3) unfolding parseStockData_object [OF assms(1)] f
    by (auto simp: and_then_def split: sum.splits)
qed

lemma latest_entry:
  assumes "series \<noteq> []"
  shows "\<exists>e. map_of series (Max (set (map fst series))) = Some e \<and> e \<in> snd ` set series"
proof -
  have "Max (set (map fst series)) \<in> set (map fst series)"
    using assms by (intro Max_in) simp_all
  then have "map_of series (Max (set (map fst series))) \<noteq> None"
    by (simp add: map_of_eq_None_iff)
  then obtain e where e: "map_of series (Max (set (map fst series))) = Some e" by auto
  then have "e \<in> snd ` set series" by (metis map_of_SomeD image_eqI snd_conv)
  with e show ?thesis by blast
qed

lemma quote_returned:
  assumes "map_of kvs k_time_series = Some (JObj series)" and "series \<noteq> []"
    and "list_all string_fields (map snd series)"
  shows "\<exists>q. parseStockData (JObj kvs) = Inr (Some q)"
proof -
  have f: "first (rev (sort (map fst series))) = Some (Max (set (map fst series)))"
    using assms(2) by (intro first_rev_sort) simp
  from latest_entry [OF assms(2)] obtain e where
    e: "map_of series (Max (set (map fst series))) = Some e" "e \<in> snd ` set series" by blast
  with assms(3) have "string_fields e" by (auto simp: list_all_iff)
  then obtain fs where fs: "e = JObj fs" "list_all is_string (map snd fs)"
    by (cases e) simp_all
  obtain a where a: "parseFloat (map_of fs k_open) = Inr a"
    using parseFloat_string_field [OF fs(2)] by blast
  obtain b where b: "parseFloat (map_of fs k_high) = Inr b"
    using parseFloat_string_field [OF fs(2)] by blast
  obtain c where c: "parseFloat (map_of fs k_low) = Inr c"
    using parseFloat_string_field [OF fs(2)] by blast
  obtain d where d: "parseFloat (map_of fs k_close) = Inr d"
    using parseFloat_string_field [OF fs(2)] by blast
  obtain v where v: "parseInt (map_of fs k_volume) = Inr v"
    using parseInt_string_field [OF fs(2)] by blast
  show ?thesis
    unfolding parseStockData_object [OF assms(1)] f
    using e(1) fs(1) a b c d v by (simp add: and_then_def property_key_def)
qed

text \<open>
  A decimal that no double equals is rounded: \<^verbatim>\<open>parseFloat("0.1")\<close> is the double
  \<open>3602879701896397 / 2 ^ 55\<close>.
\<close>

lemma parseFloat_rounds:
  "parseFloat_string (js ''0.1'') = Fin (3602879701896397 / 36028797018963968)"
  by code_simp

text \<open>The fields of the example entry, read and converted.\<close>

lemma sample_open: "and_then (property (Some sample_entry) k_open) parseFloat = Inr (Fin 150)"
  by code_simp

lemma sample_high: "and_then (property (Some sample_entry) k_high) parseFloat = Inr (Fin 152)"
  by code_simp

lemma sample_low:
  "and_then (property (Some sample_entry) k_low) parseFloat = Inr (Fin (299 / 2))"
  by code_simp

lemma sample_close:
  "and_then (property (Some sample_entry) k_close) parseFloat = Inr (Fin (605 / 4))"
  by code_simp

lemma sample_volume:
  "and_then (property (Some sample_entry) k_volume) parseInt = Inr (Fin 1000000)"
  by code_simp

lemma two_days_facts:
  "two_days \<noteq> []"
  "list_all string_fields (map snd two_days)"
  "Max (set (map fst two_days)) = js ''2024-01-03''"
  by code_simp+

text \<open>
  C3. For a response whose daily series is a non-empty object, a Quote that
  \<^verbatim>\<open>parseStockData\<close> returns has as its date the greatest key of the series in the order of
  strings; and a Quote is returned when the entries of the series are objects with string
  members, as the provider sends them.
\<close>

theorem latest_date_selected:
  assumes "map_of kvs k_time_series = Some (JObj series)" and "series \<noteq> []"
  shows "(\<forall>q. parseStockData (JObj kvs) = Inr (Some q) \<longrightarrow>
              date q = Some (Max (set (map fst series))))
       \<and> (list_all string_fields (map snd series) \<longrightarrow>
              (\<exists>q. parseStockData (JObj kvs) = Inr (Some q)))"
  using returned_date_is_max [OF assms] quote_returned [OF assms] by blast

theorem latest_date_selected_witness:
  "\<exists>q. parseStockData (JObj [(k_time_series, JObj two_days)]) = Inr (Some q)
      \<and> date q = Some (js ''2024-01-03'')"
proof -
  have s: "map_of [(k_time_series, JObj two_days)] k_time_series = Some (JObj two_days)"
    by simp
  show ?thesis
    using latest_date_selected [OF s two_days_facts(1)] two_days_facts(2,3) by auto
qed

lemma parseStockData_latest_sample:
  assumes "map_of kvs k_time_series = Some (JObj series)" and "series \<noteq> []"
    and "map_of series (Max (set (map fst series))) = Some sample_entry"
  shows "parseStockData (JObj kvs) =
     Inr (Some \<lparr>date = Some (Max (set (map fst series))), open_price = Fin 150,
                high = Fin 152, low = Fin (14950 / 100), close_price = Fin (15125 / 100),
                volume = Fin 1000000\<rparr>)"
proof -
  have f: "first (rev (sort (map fst series))) = Some (Max (set (map fst series)))"
    using assms(2) by (intro first_rev_sort) simp
  have "property (Some (JObj series)) (property_key (Some (Max (set (map fst series)))))
      = Inr (Some sample_entry)"
    using assms(3) by (simp add: property_key_def)
  then show ?thesis
    unfolding parseStockData_object [OF assms(1)] f
    by (simp add: and_then_def [of "Inr (Some sample_entry)"]
          sample_open sample_high sample_low sample_close sample_volume)
       (simp add: and_then_def)
qed

lemma parseStockData_two_days:
  "parseStockData (JObj [(k_time_series, JObj two_days)]) =
     Inr (Some \<lparr>date = Some (js ''2024-01-03''), open_price = Fin 150,
                high = Fin 152, low = Fin (14950 / 100), close_price = Fin (15125 / 100),
                volume = Fin 1000000\<rparr>)"
proof -
  have s: "map_of [(k_time_series, JObj two_days)] k_time_series = Some (JObj two_days)"
    by simp
  have e: "map_of two_days (Max (set (map fst two_days))) = Some sample_entry"
    unfolding two_days_facts(3) by code_simp
  show ?thesis
    using parseStockData_latest_sample [OF s two_days_facts(1) e]
    by (simp only: two_days_facts(3))
qed

section \<open>The example entry\<close>

text \<open>
  C4. For a series whose one entry, under any date \<open>d\<close>, is the entry of the example,
  \<^verbatim>\<open>parseStockData\<close> returns the Quote with \<open>open = 150\<close>, \<open>high = 152\<close>, \<open>low = 149.5\<close>,
  \<open>close = 151.25\<close> and \<open>volume = 1000000\<close>: the Number values are the decimal values of
  the strings, nothing being lost to rounding, and the volume is an integer.
\<close>

theorem sample_entry_parsed_exactly:
  "parseStockData (JObj [(k_time_series, JObj [(d, sample_entry)])]) =
     Inr (Some \<lparr>date = Some d, open_price = Fin 150, high = Fin 152,
                low = Fin (14950 / 100), close_price = Fin (15125 / 100),
                volume = Fin 1000000\<rparr>)"
  using parseStockData_latest_sample [of "[(k_time_series, JObj [(d, sample_entry)])]"
          "[(d, sample_entry)]"]
  by simp

section \<open>A response without a series\<close>

text \<open>
  C5. For a response object that has none of the names \<^verbatim>\<open>'Error Message'\<close>, \<^verbatim>\<open>'Note'\<close> and
  \<^verbatim>\<open>'Time Series (Daily)'\<close>, \<^verbatim>\<open>parseStockData\<close> returns \<^verbatim>\<open>null\<close> and \<^verbatim>\<open>fetchStockPrice\<close>
  is a silent no-op: it returns normally, the Quote Cache is as before, the loading flag
  is reset, the status is still the text set before the request and not an error text,
  and nothing is written to the console.
\<close>

theorem no_series_is_silent:
  assumes "fst (respond env symbol (now w)) = Response (Document (JObj kvs))"
    and "k_error_message \<notin> fst ` set kvs"
    and "k_note \<notin> fst ` set kvs"
    and "k_time_series \<notin> fst ` set kvs"
  shows "parseStockData (JObj kvs) = Inr None
       \<and> fst (fetchStockPrice env symbol w) = Inr ()
       \<and> stockPrices (page (snd (fetchStockPrice env symbol w))) = stockPrices (page w)
       \<and> isLoading (page (snd (fetchStockPrice env symbol w))) = False
       \<and> apiStatus (page (snd (fetchStockPrice env symbol w))) = symbol @ txt_fetching
       \<and> trace (snd (fetchStockPrice env symbol w)) =
           trace w @ [Request symbol (now w),
                      Settled symbol (now w + snd (respond env symbol (now w)))]"
proof -
  have n: "map_of kvs k_error_message = None" "map_of kvs k_note = None"
      "map_of kvs k_time_series = None"
    using assms(2-4) by (simp_all add: map_of_eq_None_iff)
  have p: "parseStockData (JObj kvs) = Inr None"
    using n(3) by (simp add: parseStockData_def and_then_def)
  have g: "fst (getDailyData env symbol w) = Inr (JObj kvs)"
    using assms(1) n(1,2) by (simp add: getDailyData_value and_then_def)
  show ?thesis
    using p g getDailyData_trace_ok [OF g]
    by (simp add: fetchStockPrice_value fetchStockPrice_stockPrices fetchStockPrice_isLoading
          fetchStockPrice_apiStatus fetchStockPrice_trace and_then_def)
qed

theorem no_series_is_silent_witness:
  "parseStockData (JObj [(js ''Information'', JStr (js ''demo''))]) = Inr None
   \<and> apiStatus (page (snd (fetchStockPrice
         (steady (Response (Document (JObj [(js ''Information'', JStr (js ''demo''))]))) 120)
         (js ''AAPL'') idle))) = js ''AAPL'' @ txt_fetching
   \<and> trace (snd (fetchStockPrice
         (steady (Response (Document (JObj [(js ''Information'', JStr (js ''demo''))]))) 120)
         (js ''AAPL'') idle)) = [Request (js ''AAPL'') 0, Settled (js ''AAPL'') 120]"
proof -
  have r: "fst (respond
       (steady (Response (Document (JObj [(js ''Information'', JStr (js ''demo''))]))) 120)
       (js ''AAPL'') (now idle))
     = Response (Document (JObj [(js ''Information'', JStr (js ''demo''))]))"
    by (simp add: steady_def)
  have k: "k_error_message \<notin> fst ` set [(js ''Information'', JStr (js ''demo''))]"
      "k_note \<notin> fst ` set [(js ''Information'', JStr (js ''demo''))]"
      "k_time_series \<notin> fst ` set [(js ''Information'', JStr (js ''demo''))]"
    by (simp_all add: k_error_message_def k_note_def k_time_series_def js_def)
  show ?thesis
    using no_series_is_silent [OF r k] by (simp add: idle_def steady_def)
qed

section \<open>The Quote Cache\<close>

text \<open>
  C7. A fetch that succeeds, \<^verbatim>\<open>getDailyData\<close> returning a document from which
  \<^verbatim>\<open>parseStockData\<close> makes a Quote, updates the Quote Cache by one insert-or-replace:
  the entry of the fetched symbol is the new Quote, and every other entry is as before.
\<close>

theorem cache_insert_or_replace:
  assumes "fst (getDailyData env symbol w) = Inr data"
    and "parseStockData data = Inr (Some q)"
  shows "stockPrices (page (snd (fetchStockPrice env symbol w))) = (stockPrices (page w))(symbol \<mapsto> q)
       \<and> stockPrices (page (snd (fetchStockPrice env symbol w))) symbol = Some q
       \<and> (\<forall>other. other \<noteq> symbol \<longrightarrow>
             stockPrices (page (snd (fetchStockPrice env symbol w))) other
               = stockPrices (page w) other)"
  using assms by (simp add: fetchStockPrice_stockPrices and_then_def)

theorem cache_insert_or_replace_witness:
  "stockPrices (page (snd (fetchStockPrice
       (steady (Response (Document (JObj [(k_time_series, JObj two_days)]))) 120)
       (js ''AAPL'') idle))) (js ''AAPL'')
     = Some \<lparr>date = Some (js ''2024-01-03''), open_price = Fin 150, high = Fin 152,
             low = Fin (14950 / 100), close_price = Fin (15125 / 100), volume = Fin 1000000\<rparr>
   \<and> stockPrices (page (snd (fetchStockPrice
       (steady (Response (Document (JObj [(k_time_series, JObj two_days)]))) 120)
       (js ''AAPL'') idle))) (js ''MSFT'') = None"
proof -
  have g: "fst (getDailyData
       (steady (Response (Document (JObj [(k_time_series, JObj two_days)]))) 120)
       (js ''AAPL'') idle) = Inr (JObj [(k_time_series, JObj two_days)])"
    by (simp add: getDailyData_value steady_def and_then_def keys_differ)
  have d: "js ''MSFT'' \<noteq> js ''AAPL''"
    by (simp add: js_def)
  show ?thesis
    using cache_insert_or_replace [OF g parseStockData_two_days] d
    by (simp add: idle_def)
qed

section \<open>Transport failures\<close>

text \<open>
  C8. When the request fails on the network, \<^verbatim>\<open>getDailyData\<close> fails with the \<open>TypeError\<close>
  with which \<^verbatim>\<open>fetch\<close> rejects; when the body is not JSON, it fails with the
  \<open>SyntaxError\<close> with which \<^verbatim>\<open>response.json()\<close> rejects. Both are rethrown as they are, and
  neither is \<open>NotFoundError\<close> or \<open>RateLimitedError\<close>.
\<close>

theorem transport_failure_rethrown:
  "(fst (respond env symbol (now w)) = NetworkError m \<longrightarrow>
       fst (getDailyData env symbol w) = Inl (TypeError m))
   \<and> (fst (respond env symbol (now w)) = Response (Malformed m) \<longrightarrow>
       fst (getDailyData env symbol w) = Inl (SyntaxError m))
   \<and> TypeError m \<noteq> NotFoundError \<and> TypeError m \<noteq> RateLimitedError
   \<and> SyntaxError m \<noteq> NotFoundError \<and> SyntaxError m \<noteq> RateLimitedError"
  by (simp add: getDailyData_value NotFoundError_def RateLimitedError_def)

theorem transport_failure_rethrown_witness:
  "fst (getDailyData (steady (NetworkError (js ''Failed to fetch'')) 120) (js ''AAPL'') idle)
     = Inl (TypeError (js ''Failed to fetch''))
   \<and> fst (getDailyData (steady (Response (Malformed (js ''Unexpected token''))) 120)
           (js ''AAPL'') idle)
     = Inl (SyntaxError (js ''Unexpected token''))"
proof -
  have a: "fst (respond (steady (NetworkError (js ''Failed to fetch'')) 120) (js ''AAPL'')
             (now idle)) = NetworkError (js ''Failed to fetch'')"
    by (simp add: steady_def)
  have b: "fst (respond (steady (Response (Malformed (js ''Unexpected token''))) 120)
             (js ''AAPL'') (now idle)) = Response (Malformed (js ''Unexpected token''))"
    by (simp add: steady_def)
  show ?thesis
    using transport_failure_rethrown
            [of "steady (NetworkError (js ''Failed to fetch'')) 120" "js ''AAPL''" idle
                "js ''Failed to fetch''"]
          transport_failure_rethrown
            [of "steady (Response (Malformed (js ''Unexpected token''))) 120" "js ''AAPL''" idle
                "js ''Unexpected token''"]
          a b
    by simp
qed

section \<open>An empty series\<close>

text \<open>
  C9. For a response whose \<^verbatim>\<open>'Time Series (Daily)'\<close> is the empty object,
  \<^verbatim>\<open>parseStockData\<close> returns neither \<^verbatim>\<open>null\<close> nor a Quote: it throws the \<open>TypeError\<close> of the
  read of \<^verbatim>\<open>'1. open'\<close> on the \<^verbatim>\<open>undefined\<close> entry. In \<^verbatim>\<open>fetchStockPrice\<close> the outcome is
  then an error status, the Quote Cache being as before, and not the silent no-op of an
  absent series.
\<close>

theorem empty_series_throws:
  assumes "map_of kvs k_time_series = Some (JObj [])"
  shows "parseStockData (JObj kvs) = Inl (TypeError (cannot_read ''undefined'' k_open))
       \<and> (fst (getDailyData env symbol w) = Inr (JObj kvs) \<longrightarrow>
            fst (fetchStockPrice env symbol w) = Inr ()
          \<and> stockPrices (page (snd (fetchStockPrice env symbol w))) = stockPrices (page w)
          \<and> apiStatus (page (snd (fetchStockPrice env symbol w)))
              = txt_error @ cannot_read ''undefined'' k_open)"
proof -
  have p: "parseStockData (JObj kvs) = Inl (TypeError (cannot_read ''undefined'' k_open))"
    unfolding parseStockData_object [OF assms]
    by (simp add: first_def property_key_def and_then_def)
  then show ?thesis
    by (simp add: fetchStockPrice_value fetchStockPrice_stockPrices fetchStockPrice_apiStatus
          and_then_def)
qed

theorem empty_series_throws_witness:
  "parseStockData (JObj [(k_time_series, JObj [])])
     = Inl (TypeError (cannot_read ''undefined'' k_open))
   \<and> apiStatus (page (snd (fetchStockPrice
         (steady (Response (Document (JObj [(k_time_series, JObj [])]))) 120)
         (js ''AAPL'') idle)))
     = txt_error @ cannot_read ''undefined'' k_open"
proof -
  have s: "map_of [(k_time_series, JObj [])] k_time_series = Some (JObj [])"
    by simp
  have g: "fst (getDailyData
       (steady (Response (Document (JObj [(k_time_series, JObj [])]))) 120)
       (js ''AAPL'') idle) = Inr (JObj [(k_time_series, JObj [])])"
    by (simp add: getDailyData_value steady_def and_then_def keys_differ)
  show ?thesis
    using empty_series_throws [OF s,
            of "steady (Response (Document (JObj [(k_time_series, JObj [])]))) 120"
               "js ''AAPL''" idle] g
    by simp
qed

section \<open>fetchStockPrice as a whole\<close>

text \<open>
  C10. For every symbol and every outcome of the provider, \<^verbatim>\<open>fetchStockPrice\<close> returns
  without an exception and the loading flag is \<open>False\<close> afterwards. Every error is caught
  and turned into a status text: when \<^verbatim>\<open>getDailyData\<close> throws, or when it returns a
  document on which \<^verbatim>\<open>parseStockData\<close> throws, the status is the error prefix followed by
  the message of that error, and the Quote Cache is as before. The Quote Cache is as
  before on every path unless \<^verbatim>\<open>getDailyData\<close> returned a document from which
  \<^verbatim>\<open>parseStockData\<close> made a Quote, which is then the entry of the symbol.
\<close>

theorem fetchStockPrice_never_throws:
  "fst (fetchStockPrice env symbol w) = Inr ()
   \<and> isLoading (page (snd (fetchStockPrice env symbol w))) = False
   \<and> (\<forall>e. fst (getDailyData env symbol w) = Inl e \<longrightarrow>
          apiStatus (page (snd (fetchStockPrice env symbol w))) = txt_error @ message e
        \<and> stockPrices (page (snd (fetchStockPrice env symbol w))) = stockPrices (page w))
   \<and> (\<forall>data e. fst (getDailyData env symbol w) = Inr data \<and> parseStockData data = Inl e \<longrightarrow>
          apiStatus (page (snd (fetchStockPrice env symbol w))) = txt_error @ message e
        \<and> stockPrices (page (snd (fetchStockPrice env symbol w))) = stockPrices (page w))
   \<and> (stockPrices (page (snd (fetchStockPrice env symbol w))) = stockPrices (page w)
      \<or> (\<exists>data q. fst (getDailyData env symbol w) = Inr data
            \<and> parseStockData data = Inr (Some q)
            \<and> stockPrices (page (snd (fetchStockPrice env symbol w)))
                = (stockPrices (page w))(symbol \<mapsto> q)))"
  by (auto simp add: fetchStockPrice_value fetchStockPrice_isLoading
        fetchStockPrice_stockPrices fetchStockPrice_apiStatus and_then_def
        split: sum.splits option.splits)

theorem fetchStockPrice_never_throws_witness:
  "fst (fetchStockPrice
          (steady (Response (Document (JObj [(k_error_message, JStr (js ''Invalid API call.''))]))) 120)
          (js ''ZZZZ'') idle) = Inr ()
   \<and> isLoading (page (snd (fetchStockPrice
          (steady (Response (Document (JObj [(k_error_message, JStr (js ''Invalid API call.''))]))) 120)
          (js ''ZZZZ'') idle))) = False
   \<and> apiStatus (page (snd (fetchStockPrice
          (steady (Response (Document (JObj [(k_error_message, JStr (js ''Invalid API call.''))]))) 120)
          (js ''ZZZZ'') idle))) = txt_error @ msg_not_found
   \<and> apiStatus (page (snd (fetchStockPrice
          (steady (NetworkError (js ''Failed to fetch'')) 120) (js ''AAPL'') idle)))
       = txt_error @ js ''Failed to fetch''
   \<and> apiStatus (page (snd (fetchStockPrice
          (steady (Response (Document (JObj [(k_time_series, JObj [])]))) 120)
          (js ''AAPL'') idle)))
       = txt_error @ cannot_read ''undefined'' k_open
   \<and> stockPrices (page (snd (fetchStockPrice
          (steady (Response (Document (JObj [(k_time_series, JObj [])]))) 120)
          (js ''AAPL'') idle))) (js ''AAPL'') = None"
proof -
  have a: "fst (getDailyData
       (steady (Response (Document (JObj [(k_error_message, JStr (js ''Invalid API call.''))]))) 120)
       (js ''ZZZZ'') idle) = Inl (Error msg_not_found)"
    by (simp add: getDailyData_value steady_def and_then_def js_def)
  have b: "fst (getDailyData (steady (NetworkError (js ''Failed to fetch'')) 120)
       (js ''AAPL'') idle) = Inl (TypeError (js ''Failed to fetch''))"
    by (simp add: getDailyData_value steady_def)
  have c: "fst (getDailyData
       (steady (Response (Document (JObj [(k_time_series, JObj [])]))) 120)
       (js ''AAPL'') idle) = Inr (JObj [(k_time_series, JObj [])])"
    by (simp add: getDailyData_value steady_def and_then_def keys_differ)
  have s: "map_of [(k_time_series, JObj [])] k_time_series = Some (JObj [])"
    by simp
  have p: "parseStockData (JObj [(k_time_series, JObj [])])
      = Inl (TypeError (cannot_read ''undefined'' k_open))"
    unfolding parseStockData_object [OF s]
    by (simp add: first_def property_key_def and_then_def)
  show ?thesis
    using fetchStockPrice_never_throws
            [of "steady (Response (Document (JObj [(k_error_message, JStr (js ''Invalid API call.''))]))) 120"
                "js ''ZZZZ''" idle]
          fetchStockPrice_never_throws
            [of "steady (NetworkError (js ''Failed to fetch'')) 120" "js ''AAPL''" idle]
          fetchStockPrice_never_throws
            [of "steady (Response (Document (JObj [(k_time_series, JObj [])]))) 120"
                "js ''AAPL''" idle]
          a b c p
    by (simp add: idle_def)
qed

section \<open>The batch update\<close>

text \<open>One turn of the loop: the request, its outcome, then the timer.\<close>

lemma loop_turn:
  "\<exists>w' r. next_do (fetchStockPrice env symbol) (delay env 1000) w = (Inr (), w')
     \<and> network (trace w') = network (trace w) @ [Request symbol (now w), Settled symbol r]
     \<and> now w \<le> r \<and> r + 1000 \<le> now w'"
proof -
  obtain W where f: "fetchStockPrice env symbol w = (Inr (), W)"
    using fetchStockPrice_value [of env symbol w] by (cases "fetchStockPrice env symbol w") simp
  have t: "network (trace W) = network (trace w)
      @ [Request symbol (now w), Settled symbol (now w + snd (respond env symbol (now w)))]"
    using fetchStockPrice_trace [of env symbol w] getDailyData_network [of env symbol w]
    by (simp add: f)
  have n: "now W = now w + snd (respond env symbol (now w))"
    using fetchStockPrice_now [of env symbol w] by (simp add: f)
  have "next_do (fetchStockPrice env symbol) (delay env 1000) w
      = (Inr (), W\<lparr>now := now W + 1000 + timer_lag env (now W)\<rparr>)"
    by (simp add: next_do_def bind_def f delay_def)
  then show ?thesis
    using t n
    by (intro exI [of _ "W\<lparr>now := now W + 1000 + timer_lag env (now W)\<rparr>"]
              exI [of _ "now w + snd (respond env symbol (now w))"]) simp
qed

text \<open>
  C6. \<^verbatim>\<open>updateAllPrices\<close> returns without an exception for every behaviour of the
  network, and the events of the network it adds to the trace are these eight: a request
  for each of the four symbols in the order of the list, each followed by its outcome
  before the next request leaves, the first leaving at once and each later one at least
  1000 milliseconds after the outcome of the one before. The outcomes are arbitrary, so a
  failure for one symbol does not keep the remaining requests from being made.
\<close>

theorem updateAllPrices_sequential:
  "\<exists>w' t2 t3 t4 r1 r2 r3 r4.
     updateAllPrices env w = (Inr (), w')
     \<and> network (trace w') = network (trace w) @
         [Request (js ''AAPL'') (now w), Settled (js ''AAPL'') r1,
          Request (js ''MSFT'') t2, Settled (js ''MSFT'') r2,
          Request (js ''7203.T'') t3, Settled (js ''7203.T'') r3,
          Request (js ''9432.T'') t4, Settled (js ''9432.T'') r4]
     \<and> now w \<le> r1 \<and> r1 + 1000 \<le> t2
     \<and> t2 \<le> r2 \<and> r2 + 1000 \<le> t3
     \<and> t3 \<le> r3 \<and> r3 + 1000 \<le> t4
     \<and> t4 \<le> r4 \<and> r4 + 1000 \<le> now w'"
proof -
  let ?turn = "\<lambda>symbol. next_do (fetchStockPrice env symbol) (delay env 1000)"
  obtain w1 r1 where 1: "?turn (js ''AAPL'') w = (Inr (), w1)"
      "network (trace w1) = network (trace w) @ [Request (js ''AAPL'') (now w), Settled (js ''AAPL'') r1]"
      "now w \<le> r1" "r1 + 1000 \<le> now w1"
    using loop_turn [of env "js ''AAPL''" w] by blast
  obtain w2 r2 where 2: "?turn (js ''MSFT'') w1 = (Inr (), w2)"
      "network (trace w2) = network (trace w1) @ [Request (js ''MSFT'') (now w1), Settled (js ''MSFT'') r2]"
      "now w1 \<le> r2" "r2 + 1000 \<le> now w2"
    using loop_turn [of env "js ''MSFT''" w1] by blast
  obtain w3 r3 where 3: "?turn (js ''7203.T'') w2 = (Inr (), w3)"
      "network (trace w3) = network (trace w2) @ [Request (js ''7203.T'') (now w2), Settled (js ''7203.T'') r3]"
      "now w2 \<le> r3" "r3 + 1000 \<le> now w3"
    using loop_turn [of env "js ''7203.T''" w2] by blast
  obtain w4 r4 where 4: "?turn (js ''9432.T'') w3 = (Inr (), w4)"
      "network (trace w4) = network (trace w3) @ [Request (js ''9432.T'') (now w3), Settled (js ''9432.T'') r4]"
      "now w3 \<le> r4" "r4 + 1000 \<le> now w4"
    using loop_turn [of env "js ''9432.T''" w3] by blast
  have run: "updateAllPrices env w = (Inr (), w4)"
    unfolding updateAllPrices_def symbols_def for_of.simps
    by (subst next_do_def, subst bind_def, simp only: 1(1) prod.case sum.case,
        subst next_do_def, subst bind_def, simp only: 2(1) prod.case sum.case,
        subst next_do_def, subst bind_def, simp only: 3(1) prod.case sum.case,
        subst next_do_def, subst bind_def, simp only: 4(1) prod.case sum.case)
       (simp add: pure_def)
  have tr: "network (trace w4) = network (trace w) @
         [Request (js ''AAPL'') (now w), Settled (js ''AAPL'') r1,
          Request (js ''MSFT'') (now w1), Settled (js ''MSFT'') r2,
          Request (js ''7203.T'') (now w2), Settled (js ''7203.T'') r3,
          Request (js ''9432.T'') (now w3), Settled (js ''9432.T'') r4]"
    by (simp only: 1(2) 2(2) 3(2) 4(2) append_assoc append.simps)
  show ?thesis
    using run tr 1(3,4) 2(3,4) 3(3,4) 4(3,4) by blast
qed

end
